theory Spec2Isabelle
  imports Complex_Main
begin

section \<open>Data model\<close>

text \<open>
  Coordinates, pressures and times are JavaScript numbers; they are modelled as real
  numbers, so rounding and the non-finite values are outside the model. A point read from
  a font document may lack \<open>pressure\<close> or \<open>timestamp\<close> (the code defaults them
  with \<open>||\<close>), hence the option type of these two fields: \<open>None\<close> is the absent
  property.
\<close>

record point =
  px :: real
  py :: real
  pressure :: "real option"
  timestamp :: "real option"

text \<open>
  A stroke is an object with a \<open>points\<close> array. The code copies a stroke with
  \<open>{...stroke, points: ...}\<close>, which keeps every other property: the record is
  extensible and an update of \<open>points\<close> keeps the extension.
\<close>

record stroke =
  points :: "point list"

record bounds =
  minX :: real
  minY :: real
  maxX :: real
  maxY :: real
  width :: real
  height :: real

record metrics =
  ascender :: real
  capHeight :: real
  xHeight :: real
  baseline :: real
  descender :: real
  emHeight :: real
  captureWidth :: real

section \<open>StrokeProcessor.simplifyStroke\<close>

definition hypot :: "real \<Rightarrow> real \<Rightarrow> real" where
  "hypot a b = sqrt (a * a + b * b)"

definition perpendicularDistance :: "point \<Rightarrow> point \<Rightarrow> point \<Rightarrow> real" where
  "perpendicularDistance p lineStart lineEnd =
    (let dx = px lineEnd - px lineStart;
         dy = py lineEnd - py lineStart
     in if dx = 0 \<and> dy = 0
        then hypot (px p - px lineStart) (py p - py lineStart)
        else
          let t = ((px p - px lineStart) * dx + (py p - py lineStart) * dy)
                    / (dx * dx + dy * dy);
              closest =
                (if t < 0 then (px lineStart, py lineStart)
                 else if t > 1 then (px lineEnd, py lineEnd)
                 else (px lineStart + t * dx, py lineStart + t * dy))
          in hypot (px p - fst closest) (py p - snd closest))"

text \<open>
  The body of the \<open>for\<close> loop of \<open>simplify\<close>: the pair is \<open>(maxDist, maxIndex)\<close>,
  replaced when the distance of point \<open>i\<close> from the chord is strictly larger.
\<close>

definition scanStep :: "point list \<Rightarrow> real \<times> nat \<Rightarrow> nat \<Rightarrow> real \<times> nat" where
  "scanStep pts acc i =
     (let dist = perpendicularDistance (pts ! i) (hd pts) (last pts)
      in if dist > fst acc then (dist, i) else acc)"

text \<open>The loop \<open>for (let i = 1; i < pts.length - 1; i++)\<close>, started at \<open>(0, 0)\<close>.\<close>

definition farthest :: "point list \<Rightarrow> real \<times> nat" where
  "farthest pts = foldl (scanStep pts) (0, 0) [1 ..< length pts - 1]"

text \<open>
  The inner recursive function \<open>simplify\<close>. Nothing in the source bounds the recursion:
  with a negative tolerance and a chain whose interior points all lie on the chord,
  \<open>maxIndex\<close> stays \<open>0\<close> and the right call is on the whole chain again. The function
  is therefore defined in the option monad, \<open>None\<close> being a call that does not return.
  \<open>left.slice(0, -1)\<close> is \<open>butlast left\<close>.
\<close>

partial_function (option) simplify :: "point list \<Rightarrow> real \<Rightarrow> point list option" where
  "simplify pts tol =
     (if length pts \<le> 2 then Some pts
      else
        (case farthest pts of (maxDist, maxIndex) \<Rightarrow>
           if maxDist > tol then
             Option.bind (simplify (take (maxIndex + 1) pts) tol) (\<lambda>left.
             Option.bind (simplify (drop maxIndex pts) tol) (\<lambda>right.
               Some (butlast left @ right)))
           else Some [hd pts, last pts]))"

declare simplify.simps [code]

text \<open>\<open>simplifyStroke(points, tolerance)\<close>; a caller that omits the tolerance passes 1.\<close>

definition simplifyStroke :: "point list \<Rightarrow> real \<Rightarrow> point list option" where
  "simplifyStroke pts tolerance =
     (if length pts \<le> 2 then Some pts else simplify pts tolerance)"

section \<open>StrokeProcessor.normalize\<close>

text \<open>
  \<open>v || d\<close> on numbers: \<open>d\<close> when \<open>v\<close> is \<open>undefined\<close> (\<open>None\<close>) or \<open>0\<close>,
  else \<open>v\<close>.
\<close>

definition orElse :: "real option \<Rightarrow> real \<Rightarrow> real" where
  "orElse v d = (case v of None \<Rightarrow> d | Some x \<Rightarrow> if x = 0 then d else x)"

text \<open>
  \<open>normalize(strokes, bounds, metrics)\<close>; an omitted or null \<open>metrics\<close> is \<open>None\<close>.
  \<open>metrics?.emHeight || bounds.height || 1\<close> associates to the left, and
  \<open>metrics?.ascender ?? bounds.minY\<close> tests presence only. Every output point is a new
  object with the four properties \<open>x\<close>, \<open>y\<close>, \<open>pressure\<close>, \<open>timestamp\<close>.
\<close>

definition normalizePoint :: "real \<Rightarrow> real \<Rightarrow> real \<Rightarrow> point \<Rightarrow> point" where
  "normalizePoint originX originY scale p =
     \<lparr>px = (px p - originX) / scale,
      py = (py p - originY) / scale,
      pressure = Some (orElse (pressure p) 0.5),
      timestamp = Some (orElse (timestamp p) 0)\<rparr>"

definition normalize ::
  "'a stroke_scheme list \<Rightarrow> bounds \<Rightarrow> metrics option \<Rightarrow> 'a stroke_scheme list" where
  "normalize strokes b m =
     (if strokes = [] then []
      else
        let emHeight' = orElse (Some (orElse (map_option emHeight m) (height b))) 1;
            originY = (case m of None \<Rightarrow> minY b | Some mm \<Rightarrow> ascender mm);
            originX = minX b;
            scale = orElse (Some emHeight') 1
        in map (\<lambda>s. s\<lparr>points := map (normalizePoint originX originY scale) (points s)\<rparr>)
             strokes)"

section \<open>StrokeProcessor.calculateBounds\<close>

text \<open>
  The four running extremes start at \<open>Infinity\<close>, \<open>Infinity\<close>, \<open>-Infinity\<close>,
  \<open>-Infinity\<close>, which are not real numbers: the accumulator is \<open>None\<close> until the
  first point has been seen, and then holds \<open>(minX, minY, maxX, maxY)\<close>.
\<close>

definition growBox ::
  "(real \<times> real \<times> real \<times> real) option \<Rightarrow> point \<Rightarrow> (real \<times> real \<times> real \<times> real) option" where
  "growBox acc p =
     (case acc of
        None \<Rightarrow> Some (px p, py p, px p, py p)
      | Some (x0, y0, x1, y1) \<Rightarrow>
          Some (min x0 (px p), min y0 (py p), max x1 (px p), max y1 (py p)))"

text \<open>
  The result is \<open>None\<close> for a stroke set that is not empty and holds no point at all:
  the JavaScript box is then \<open>minX = minY = Infinity\<close>, \<open>maxX = maxY = -Infinity\<close>,
  \<open>width = height = -Infinity\<close>. The data model excludes such a set (a stroke is a
  non-empty sequence of points); a hand-written font document can hold one.
\<close>

definition calculateBounds :: "'a stroke_scheme list \<Rightarrow> bounds option" where
  "calculateBounds strokes =
     (if strokes = []
      then Some \<lparr>minX = 0, minY = 0, maxX = 0, maxY = 0, width = 0, height = 0\<rparr>
      else
        (case foldl (\<lambda>acc s. foldl growBox acc (points s)) None strokes of
           None \<Rightarrow> None
         | Some (x0, y0, x1, y1) \<Rightarrow>
             Some \<lparr>minX = x0, minY = y0, maxX = x1, maxY = y1,
                   width = x1 - x0, height = y1 - y0\<rparr>))"

section \<open>StrokeProcessor.applyVariation\<close>

text \<open>
  The configuration object; a property left out (\<open>None\<close>) takes the default of the
  destructuring pattern.
\<close>

record variationConfig =
  positionJitter :: "real option"
  rotationRange :: "real option"
  scaleRange :: "real option"

text \<open>
  \<open>Math.random()\<close> is the ambient random source: the sequence of the values it will
  return, of which one call of \<open>applyVariation\<close> takes the first four, in the order
  rotation, scale, offsetX, offsetY. The function returns the rest of the sequence with
  its result.
\<close>

type_synonym rng = "nat \<Rightarrow> real"

definition variedPoint ::
  "real \<Rightarrow> real \<Rightarrow> real \<Rightarrow> real \<Rightarrow> real \<Rightarrow> real \<Rightarrow> point \<Rightarrow> point" where
  "variedPoint centerX centerY scale rotation offsetX offsetY p =
     (let x = (px p - centerX) * scale;
          y = (py p - centerY) * scale;
          rotatedX = x * cos rotation - y * sin rotation;
          rotatedY = x * sin rotation + y * cos rotation
      in \<lparr>px = rotatedX + centerX + offsetX,
          py = rotatedY + centerY + offsetY,
          pressure = Some (orElse (pressure p) 0.5),
          timestamp = Some (orElse (timestamp p) 0)\<rparr>)"

text \<open>
  When \<open>calculateBounds\<close> gives the non-finite box the centre is \<open>NaN\<close> in
  JavaScript; no stroke has a point then, so the centre is never used and the model's
  \<open>(0, 0)\<close> does not show in the result.
\<close>

definition applyVariation ::
  "rng \<Rightarrow> 'a stroke_scheme list \<Rightarrow> variationConfig \<Rightarrow> 'a stroke_scheme list \<times> rng" where
  "applyVariation rnd strokes config =
     (let jitter = (case positionJitter config of None \<Rightarrow> 0.02 | Some v \<Rightarrow> v);
          rotRange = (case rotationRange config of None \<Rightarrow> 3 | Some v \<Rightarrow> v);
          sclRange = (case scaleRange config of None \<Rightarrow> 0.05 | Some v \<Rightarrow> v);
          rotation = (rnd 0 - 0.5) * 2 * rotRange * (pi / 180);
          scale = 1 + (rnd 1 - 0.5) * 2 * sclRange;
          offsetX = (rnd 2 - 0.5) * 2 * jitter;
          offsetY = (rnd 3 - 0.5) * 2 * jitter;
          center = (case calculateBounds strokes of
                      None \<Rightarrow> (0, 0)
                    | Some b \<Rightarrow> ((minX b + maxX b) / 2, (minY b + maxY b) / 2))
      in (map (\<lambda>s. s\<lparr>points :=
                  map (variedPoint (fst center) (snd center) scale rotation offsetX offsetY)
                    (points s)\<rparr>) strokes,
          \<lambda>n. rnd (n + 4)))"

section \<open>StrokeProcessor.extractConnectors and mapPressureToWidth\<close>

record connector =
  entry :: "real \<times> real"
  exit :: "real \<times> real"
  connectorWidth :: real

text \<open>
  Past the two early returns the first stroke has a point, so the box of the strokes is
  finite: the \<open>None\<close> of the last case cannot be reached.
\<close>

definition extractConnectors :: "'a stroke_scheme list \<Rightarrow> connector option" where
  "extractConnectors strokes =
     (if strokes = [] then None
      else
        let firstStroke = hd strokes;
            lastStroke = last strokes
        in if points firstStroke = [] \<or> points lastStroke = [] then None
           else
             let first = hd (points firstStroke);
                 final = last (points lastStroke)
             in (case calculateBounds strokes of
                   None \<Rightarrow> None
                 | Some b \<Rightarrow>
                     Some \<lparr>entry = (px first, py first),
                           exit = (px final, py final),
                           connectorWidth = orElse (Some (width b)) 0\<rparr>))"

definition mapPressureToWidth :: "real \<Rightarrow> real \<Rightarrow> real \<Rightarrow> real" where
  "mapPressureToWidth p minWidth maxWidth =
     (let normalizedPressure = max 0 (min 1 p)
      in minWidth + (maxWidth - minWidth) * normalizedPressure)"

section \<open>Text renderer\<close>

definition MIN_STROKE_WIDTH :: real where
  "MIN_STROKE_WIDTH = 1.5"

definition MAX_STROKE_WIDTH :: real where
  "MAX_STROKE_WIDTH = 3"

record config =
  fontSize :: real
  letterSpacing :: real
  lineHeight :: real
  variation :: real
  connectCursive :: bool
  strokeColor :: string

text \<open>A stored character, as \<open>FontData.setCharacter\<close> writes it.\<close>

record character =
  charStrokes :: "stroke list"
  charBounds :: bounds
  charBaseline :: real
  charMetrics :: "metrics option"
  charConnectors :: "connector option"
  charTimestamp :: string

text \<open>
  The renderer reads the font document through \<open>hasCharacter\<close> and
  \<open>getCharacter\<close> only. Here the \<open>characters\<close> object is a map from glyph key to
  character; a text is the sequence of its code units and a glyph key is a text of one or
  two of them.
\<close>

type_synonym glyphs = "string \<Rightarrow> character option"

definition hasCharacter :: "glyphs \<Rightarrow> string \<Rightarrow> bool" where
  "hasCharacter characters char = (characters char \<noteq> None)"

definition getCharacter :: "glyphs \<Rightarrow> string \<Rightarrow> character option" where
  "getCharacter characters char = characters char"

text \<open>
  The markup is modelled by its structure: a \<open>path\<close> element with its commands
  (\<open>M x y\<close>, \<open>Q cx cy, x y\<close>, \<open>L x y\<close>), its stroke colour and its stroke width, and a
  \<open>g\<close> element with its translation and its children. The decimal rendering of a
  number (\<open>toFixed(2)\<close>) is not modelled: an element holds the number.
\<close>

datatype command = MoveTo real real | QuadTo real real real real | LineTo real real

datatype element = Path "command list" string real | Group real real "element list"

definition generatePathData :: "point list \<Rightarrow> real \<Rightarrow> command list" where
  "generatePathData pts scale =
     (if pts = [] then []
      else
        MoveTo (px (pts ! 0) * scale) (py (pts ! 0) * scale) #
        (if length pts > 2
         then
           map (\<lambda>i. let curr = pts ! i; next = pts ! (i + 1)
                     in QuadTo (px curr * scale) (py curr * scale)
                          (((px curr + px next) / 2) * scale)
                          (((py curr + py next) / 2) * scale))
             [1 ..< length pts - 1]
           @ [LineTo (px (last pts) * scale) (py (last pts) * scale)]
         else
           map (\<lambda>i. LineTo (px (pts ! i) * scale) (py (pts ! i) * scale))
             [1 ..< length pts]))"

text \<open>\<open>points.reduce((sum, p) => sum + (p.pressure || 0.5), 0) / count\<close>\<close>

definition averagePressure :: "point list \<Rightarrow> real \<Rightarrow> real" where
  "averagePressure pts count =
     foldl (\<lambda>sum p. sum + orElse (pressure p) 0.5) 0 pts / count"

definition getBaselineNorm :: "character \<Rightarrow> real" where
  "getBaselineNorm charData =
     (case charMetrics charData of
        None \<Rightarrow> 0.7
      | Some mm \<Rightarrow>
          if emHeight mm \<noteq> 0 then (baseline mm - ascender mm) / emHeight mm else 0.7)"

text \<open>
  What \<open>renderCharacter\<close> appends for one stroke: nothing when the stroke has fewer
  than two points (the \<open>return\<close> of the callback), else one \<open>path\<close>.
\<close>

definition strokePaths :: "config \<Rightarrow> real \<Rightarrow> 'a stroke_scheme \<Rightarrow> element list" where
  "strokePaths cfg size' s =
     (if length (points s) < 2 then []
      else
        let avgPressure = averagePressure (points s) (real (length (points s)));
            strokeWidth = mapPressureToWidth avgPressure MIN_STROKE_WIDTH MAX_STROKE_WIDTH;
            pathData = generatePathData (points s) size'
        in [Path pathData (strokeColor cfg) strokeWidth])"

definition renderCharacter ::
  "config \<Rightarrow> 'a stroke_scheme list \<Rightarrow> real \<Rightarrow> real \<Rightarrow> real \<Rightarrow> character \<Rightarrow> element" where
  "renderCharacter cfg strokes x baselineY size' charData =
     (let baselineNorm = getBaselineNorm charData;
          yOffset = baselineY - baselineNorm * size'
      in Group x yOffset (concat (map (strokePaths cfg size') strokes)))"

text \<open>\<open>prevConnector\<close>: the connector of the previous glyph with its absolute exit.\<close>

record joint = connector +
  exitAbsX :: real
  exitAbsY :: real
  strokeWidth :: real

text \<open>The variables of the loop of \<open>renderLine\<close>, and the random source.\<close>

record lineState =
  pos :: nat
  xPosition :: real
  svgContent :: "element list"
  missingChars :: "string list"
  prevConnector :: "joint option"
  random :: rng

text \<open>The first lines of the loop body: the longest-match choice at position \<open>i\<close>.\<close>

definition usePair :: "glyphs \<Rightarrow> string \<Rightarrow> nat \<Rightarrow> bool" where
  "usePair fontData text i =
     (i + 1 < length text \<and> hasCharacter fontData (take 2 (drop i text)))"

definition glyphKey :: "glyphs \<Rightarrow> string \<Rightarrow> nat \<Rightarrow> string" where
  "glyphKey fontData text i =
     (if usePair fontData text i then take 2 (drop i text) else [text ! i])"

definition step :: "glyphs \<Rightarrow> string \<Rightarrow> nat \<Rightarrow> nat" where
  "step fontData text i = (if usePair fontData text i then 2 else 1)"

text \<open>
  The rest of the loop body for a glyph that the document has, up to the advance of the
  cursor. \<open>JSON.parse(JSON.stringify(strokes))\<close> copies the strokes and is the identity
  here. When the strokes are not empty and hold no point, the box of the varied strokes
  is the non-finite one and the cursor leaves the real numbers: that is \<open>None\<close>.
\<close>

definition placeGlyph :: "config \<Rightarrow> real \<Rightarrow> character \<Rightarrow> lineState \<Rightarrow> lineState option" where
  "placeGlyph cfg startY charData st =
     (let normalizedStrokes =
            normalize (charStrokes charData) (charBounds charData) (charMetrics charData);
          variationConfig =
            \<lparr>positionJitter = Some (variation cfg * 0.01),
             rotationRange = Some (variation cfg * 1.5),
             scaleRange = Some (variation cfg * 0.02)\<rparr>;
          varied = applyVariation (random st) normalizedStrokes variationConfig;
          variedStrokes = fst varied;
          baselineNorm = getBaselineNorm charData;
          yOffset = startY - baselineNorm * fontSize cfg;
          conn = extractConnectors variedStrokes;
          joining =
            (case (connectCursive cfg, prevConnector st, conn) of
               (True, Some prev, Some c) \<Rightarrow>
                 [Path [MoveTo (exitAbsX prev) (exitAbsY prev),
                        LineTo (xPosition st + fst (entry c) * fontSize cfg)
                               (yOffset + snd (entry c) * fontSize cfg)]
                    (strokeColor cfg) (strokeWidth prev)]
             | _ \<Rightarrow> []);
          charSVG = renderCharacter cfg variedStrokes (xPosition st) startY (fontSize cfg) charData
      in (case calculateBounds variedStrokes of
            None \<Rightarrow> None
          | Some normalizedBounds \<Rightarrow>
              let normalizedWidth = orElse (Some (width normalizedBounds)) 0.6;
                  charWidth = normalizedWidth * fontSize cfg;
                  prev' =
                    (case conn of
                       None \<Rightarrow> None
                     | Some c \<Rightarrow>
                         let firstStroke = hd variedStrokes;
                             pointCount = orElse (Some (real (length (points firstStroke)))) 1;
                             avgPressure = averagePressure (points firstStroke) pointCount
                         in Some (connector.extend c
                              \<lparr>exitAbsX = xPosition st + fst (exit c) * fontSize cfg,
                               exitAbsY = yOffset + snd (exit c) * fontSize cfg,
                               strokeWidth =
                                 mapPressureToWidth avgPressure MIN_STROKE_WIDTH MAX_STROKE_WIDTH\<rparr>))
              in Some (st\<lparr>xPosition := xPosition st + charWidth + letterSpacing cfg,
                         svgContent := svgContent st @ joining @ [charSVG],
                         prevConnector := prev',
                         random := snd varied\<rparr>)))"

text \<open>One pass of the loop body at position \<open>pos st\<close>, which is inside the text.\<close>

definition renderStep ::
  "glyphs \<Rightarrow> config \<Rightarrow> string \<Rightarrow> real \<Rightarrow> lineState \<Rightarrow> lineState option" where
  "renderStep fontData cfg text startY st =
     (let key = glyphKey fontData text (pos st);
          n = step fontData text (pos st)
      in if key = '' ''
         then Some (st\<lparr>xPosition := xPosition st + fontSize cfg * 0.3, pos := pos st + n\<rparr>)
         else
           (case getCharacter fontData key of
              None \<Rightarrow>
                Some (st\<lparr>missingChars := missingChars st @ [key],
                         xPosition := xPosition st + fontSize cfg * 0.5,
                         pos := pos st + n\<rparr>)
            | Some charData \<Rightarrow>
                map_option (\<lambda>st'. st'\<lparr>pos := pos st + n\<rparr>) (placeGlyph cfg startY charData st)))"

text \<open>
  The loop \<open>for (let i = 0; i < text.length; )\<close>: each pass moves \<open>i\<close> by one or
  two, so the loop ends.
\<close>

function renderLoop ::
  "glyphs \<Rightarrow> config \<Rightarrow> string \<Rightarrow> real \<Rightarrow> lineState \<Rightarrow> lineState option" where
  "renderLoop fontData cfg text startY st =
     (if pos st < length text
      then (case renderStep fontData cfg text startY st of
              None \<Rightarrow> None
            | Some st' \<Rightarrow> renderLoop fontData cfg text startY st')
      else Some st)"
  by pat_completeness auto
termination
  by (relation "measure (\<lambda>(fontData, cfg, text, startY, st). length text - pos st)")
    (auto simp: renderStep_def Let_def step_def split: if_splits option.splits)

declare renderLoop.simps [simp del]

text \<open>\<open>[...new Set(missingChars)]\<close>: the keys without repetition, in order of first
  occurrence; and \<open>Array.prototype.join\<close>.\<close>

definition distinctKeys :: "string list \<Rightarrow> string list" where
  "distinctKeys keys = foldl (\<lambda>seen k. if k \<in> set seen then seen else seen @ [k]) [] keys"

fun joinWith :: "string \<Rightarrow> string list \<Rightarrow> string" where
  "joinWith sep [] = []"
| "joinWith sep [k] = k"
| "joinWith sep (k # k' # ks) = k @ sep @ joinWith sep (k' # ks)"

text \<open>
  \<open>renderLine(text, startX, startY)\<close> returns the object \<open>{svg, width}\<close>. The model
  returns with it what the call writes to the console (the arguments of each
  \<open>console.warn\<close>) and the rest of the random sequence.
\<close>

record lineResult =
  svg :: "element list"
  lineWidth :: real

text \<open>The variables of the loop at its entry.\<close>

definition initialState :: "real \<Rightarrow> rng \<Rightarrow> lineState" where
  "initialState startX rnd =
     \<lparr>pos = 0, xPosition = startX, svgContent = [], missingChars = [],
      prevConnector = None, random = rnd\<rparr>"

definition renderLine ::
  "glyphs \<Rightarrow> config \<Rightarrow> rng \<Rightarrow> string \<Rightarrow> real \<Rightarrow> real
     \<Rightarrow> (lineResult \<times> string list list \<times> rng) option" where
  "renderLine fontData cfg rnd text startX startY =
     (case renderLoop fontData cfg text startY (initialState startX rnd) of
        None \<Rightarrow> None
      | Some st \<Rightarrow>
          Some (\<lparr>svg = svgContent st, lineWidth = xPosition st - startX\<rparr>,
                (if missingChars st \<noteq> []
                 then [[''Missing characters:'', joinWith '', '' (distinctKeys (missingChars st))]]
                 else []),
                random st))"

section \<open>FontData.importJSON\<close>

text \<open>
  The values of \<open>JSON.parse\<close>, with \<open>undefined\<close> for the value of a property that
  an object does not have. In an object a later entry of the same key wins.
\<close>

datatype jsval =
  Undefined | Null | Bool bool | Num real | Str string | Arr "jsval list"
  | Obj "(string \<times> jsval) list"

fun truthy :: "jsval \<Rightarrow> bool" where
  "truthy Undefined = False"
| "truthy Null = False"
| "truthy (Bool b) = b"
| "truthy (Num n) = (n \<noteq> 0)"
| "truthy (Str s) = (s \<noteq> [])"
| "truthy (Arr vs) = True"
| "truthy (Obj kvs) = True"

fun typeof :: "jsval \<Rightarrow> string" where
  "typeof Undefined = ''undefined''"
| "typeof Null = ''object''"
| "typeof (Bool b) = ''boolean''"
| "typeof (Num n) = ''number''"
| "typeof (Str s) = ''string''"
| "typeof (Arr vs) = ''object''"
| "typeof (Obj kvs) = ''object''"

datatype exn = SyntaxError | TypeError | Error string

text \<open>
  The property access \<open>v.k\<close>, for the two names the import reads (\<open>characters\<close> and
  \<open>metadata\<close>, which no prototype defines): a \<open>TypeError\<close> on \<open>null\<close>, \<open>undefined\<close>
  on a number, a string, a boolean or an array.
\<close>

fun getProp :: "jsval \<Rightarrow> string \<Rightarrow> exn + jsval" where
  "getProp (Obj kvs) k = Inr (case map_of (rev kvs) k of None \<Rightarrow> Undefined | Some v \<Rightarrow> v)"
| "getProp Null k = Inl TypeError"
| "getProp Undefined k = Inl TypeError"
| "getProp v k = Inr Undefined"

text \<open>
  The two fields of a \<open>FontData\<close> object. \<open>importJSON\<close> stores what it has parsed as it
  is, so both fields are values of JSON here.
\<close>

record FontData =
  characters :: jsval
  metadata :: jsval

text \<open>
  \<open>importJSON(jsonString)\<close> returns its boolean and leaves the object in a new state.
  \<open>JSON.parse\<close> is the platform's: the parameter \<open>parse\<close>, \<open>None\<close> when it throws
  a \<open>SyntaxError\<close>. \<open>created\<close> and \<open>modified\<close> are the two readings of the clock for
  the default metadata. The two assignments are two steps: an exception after the first
  would leave \<open>characters\<close> replaced, and the \<open>catch\<close> returns \<open>false\<close> with the state
  as it is then. What \<open>console.error\<close> prints is not modelled.
\<close>

definition importJSON ::
  "(string \<Rightarrow> jsval option) \<Rightarrow> string \<Rightarrow> string \<Rightarrow> FontData \<Rightarrow> string
     \<Rightarrow> bool \<times> FontData" where
  "importJSON parse created modified this jsonString =
     (case parse jsonString of
        None \<Rightarrow> (False, this)
      | Some data \<Rightarrow>
          (case getProp data ''characters'' of
             Inl e \<Rightarrow> (False, this)
           | Inr chars \<Rightarrow>
               if \<not> truthy chars \<or> typeof chars \<noteq> ''object'' then (False, this)
               else
                 let this1 = this\<lparr>characters := chars\<rparr>
                 in (case getProp data ''metadata'' of
                       Inl e \<Rightarrow> (False, this1)
                     | Inr md \<Rightarrow>
                         (True, this1\<lparr>metadata :=
                            if truthy md then md
                            else Obj [(''created'', Str created), (''modified'', Str modified),
                                      (''version'', Str ''1.0'')]\<rparr>))))"

section \<open>Notions of the specification\<close>

text \<open>
  The scale factor in the words of the specification: \<open>metrics.emHeight\<close> if present
  and nonzero, else \<open>bounds.height\<close> if nonzero, else 1.
\<close>

definition spec_scale :: "bounds \<Rightarrow> metrics option \<Rightarrow> real" where
  "spec_scale b m =
     (case m of
        Some mm \<Rightarrow>
          if emHeight mm \<noteq> 0 then emHeight mm
          else if height b \<noteq> 0 then height b else 1
      | None \<Rightarrow> if height b \<noteq> 0 then height b else 1)"

text \<open>
  The vertical origin in the words of the specification: \<open>metrics.ascender\<close> when
  metrics are supplied, \<open>bounds.minY\<close> otherwise.
\<close>

definition spec_originY :: "bounds \<Rightarrow> metrics option \<Rightarrow> real" where
  "spec_originY b m = (case m of Some mm \<Rightarrow> ascender mm | None \<Rightarrow> minY b)"

text \<open>The configuration \<open>{positionJitter: 0, rotationRange: 0, scaleRange: 0}\<close>.\<close>

definition zeroVariation :: variationConfig where
  "zeroVariation = \<lparr>positionJitter = Some 0, rotationRange = Some 0, scaleRange = Some 0\<rparr>"

text \<open>The coordinates of a stroke set, and its shape: the number of points of each stroke.\<close>

definition coordinates :: "'a stroke_scheme list \<Rightarrow> (real \<times> real) list list" where
  "coordinates strokes = map (\<lambda>s. map (\<lambda>p. (px p, py p)) (points s)) strokes"

definition shape :: "'a stroke_scheme list \<Rightarrow> nat list" where
  "shape strokes = map (\<lambda>s. length (points s)) strokes"

text \<open>
  The import in the words of the specification: the input has a \<open>characters\<close> mapping
  when it parses to an object whose \<open>characters\<close> property is itself a mapping, a JSON
  object.
\<close>

definition hasCharactersMapping :: "jsval option \<Rightarrow> bool" where
  "hasCharactersMapping parsed =
     (case parsed of
        Some (Obj kvs) \<Rightarrow>
          (case map_of (rev kvs) ''characters'' of Some (Obj cs) \<Rightarrow> True | _ \<Rightarrow> False)
      | _ \<Rightarrow> False)"

text \<open>
  The wider notion that the import has: a value of the type \<open>object\<close> that is not
  \<open>null\<close>, which is a JSON object or an array; and an input that parses to an object
  whose \<open>characters\<close> property is such a value.
\<close>

definition isObject :: "jsval \<Rightarrow> bool" where
  "isObject v = (case v of Obj kvs \<Rightarrow> True | Arr vs \<Rightarrow> True | _ \<Rightarrow> False)"

definition hasCharactersObject :: "jsval option \<Rightarrow> bool" where
  "hasCharactersObject parsed =
     (case parsed of
        Some (Obj kvs) \<Rightarrow>
          (case map_of (rev kvs) ''characters'' of None \<Rightarrow> False | Some v \<Rightarrow> isObject v)
      | _ \<Rightarrow> False)"

text \<open>The value of the property \<open>k\<close> of a parsed object, \<open>undefined\<close> when it has none.\<close>

definition property :: "(string \<times> jsval) list \<Rightarrow> string \<Rightarrow> jsval" where
  "property kvs k = (case map_of (rev kvs) k of None \<Rightarrow> Undefined | Some v \<Rightarrow> v)"

text \<open>The document that a successful import of the parsed object \<open>kvs\<close> leaves.\<close>

definition imported :: "string \<Rightarrow> string \<Rightarrow> (string \<times> jsval) list \<Rightarrow> FontData" where
  "imported created modified kvs =
     \<lparr>characters = property kvs ''characters'',
      metadata =
        (if truthy (property kvs ''metadata'') then property kvs ''metadata''
         else Obj [(''created'', Str created), (''modified'', Str modified),
                   (''version'', Str ''1.0'')])\<rparr>"

text \<open>
  The glyph keys of a line from position \<open>i\<close> on, in the order in which the loop of
  \<open>renderLine\<close> looks them up.
\<close>

function glyphKeys :: "glyphs \<Rightarrow> string \<Rightarrow> nat \<Rightarrow> string list" where
  "glyphKeys fontData text i =
     (if i < length text
      then glyphKey fontData text i # glyphKeys fontData text (i + step fontData text i)
      else [])"
  by pat_completeness auto
termination
  by (relation "measure (\<lambda>(fontData, text, i). length text - i)") (auto simp: step_def)

declare glyphKeys.simps [simp del]

text \<open>A missing glyph: a key that is not the space and that the document does not have.\<close>

definition isMissing :: "glyphs \<Rightarrow> string \<Rightarrow> bool" where
  "isMissing fontData key = (key \<noteq> '' '' \<and> fontData key = None)"

text \<open>
  A character is drawable when it has no stroke or one of its strokes has a point, that
  is when the box of its strokes is finite; a line is drawable when every glyph on it
  that the document has is drawable.
\<close>

definition allPoints :: "'a stroke_scheme list \<Rightarrow> point list" where
  "allPoints strokes = concat (map points strokes)"

definition drawable :: "character \<Rightarrow> bool" where
  "drawable c = (charStrokes c = [] \<or> allPoints (charStrokes c) \<noteq> [])"

definition drawableLine :: "glyphs \<Rightarrow> string \<Rightarrow> bool" where
  "drawableLine fontData text =
     list_all (\<lambda>key. case fontData key of None \<Rightarrow> True | Some c \<Rightarrow> drawable c)
       (glyphKeys fontData text 0)"



section \<open>Sample data\<close>

text \<open>Points, glyphs, documents and settings for the closed instances below.\<close>

definition pt :: "real \<Rightarrow> real \<Rightarrow> point" where
  "pt a b = \<lparr>px = a, py = b, pressure = Some (1 / 2), timestamp = Some 0\<rparr>"

definition sampleConfig :: config where
  "sampleConfig = \<lparr>fontSize = 60, letterSpacing = 5, lineHeight = 3 / 2, variation = 2,
     connectCursive = True, strokeColor = ''#000000''\<rparr>"

text \<open>The random source that always draws \<open>0.5\<close>.\<close>

definition steady :: rng where
  "steady n = 1 / 2"

definition noGlyphs :: glyphs where
  "noGlyphs key = None"






text \<open>A stand-in for \<open>JSON.parse\<close> on a few inputs; every other input is malformed.\<close>

definition sampleParse :: "string \<Rightarrow> jsval option" where
  "sampleParse s =
     (if s = ''{\"characters\":{}}'' then Some (Obj [(''characters'', Obj [])])
      else if s = ''{\"metadata\":{}}'' then Some (Obj [(''metadata'', Obj [])])
      else if s = ''{\"characters\":[1,2]}''
        then Some (Obj [(''characters'', Arr [Num 1, Num 2])])
      else if s = ''null'' then Some Null
      else None)"

definition sampleFont :: FontData where
  "sampleFont =
     \<lparr>characters = Obj [(''a'', Obj [])], metadata = Obj [(''version'', Str ''1.0'')]\<rparr>"

section \<open>Properties of simplifyStroke\<close>

lemma scan_fold:
  "foldl (scanStep pts) (d0, k0) js = (d, k) \<Longrightarrow>
     d0 \<le> d \<and> ((d, k) = (d0, k0) \<or> k \<in> set js)"
proof (induction js arbitrary: d0 k0)
  case Nil
  then show ?case by simp
next
  case (Cons j js)
  obtain d1 k1 where s: "scanStep pts (d0, k0) j = (d1, k1)"
    by (cases "scanStep pts (d0, k0) j")
  from s have step: "d0 \<le> d1 \<and> ((d1, k1) = (d0, k0) \<or> k1 = j)"
    by (auto simp: scanStep_def Let_def split: if_splits)
  from Cons.prems s have "foldl (scanStep pts) (d1, k1) js = (d, k)"
    by simp
  from Cons.IH [OF this] have "d1 \<le> d \<and> ((d, k) = (d1, k1) \<or> k \<in> set js)" .
  with step show ?case by auto
qed

lemma farthest_index:
  assumes "farthest pts = (d, k)" and "0 < d"
  shows "1 \<le> k \<and> k + 1 < length pts"
proof -
  from assms(1) have "(d, k) = (0, 0) \<or> k \<in> set [1 ..< length pts - 1]"
    using scan_fold [of pts 0 0 "[1 ..< length pts - 1]" d k]
    by (simp add: farthest_def)
  with assms(2) show ?thesis by auto
qed

lemma simplify_short: "length pts \<le> 2 \<Longrightarrow> simplify pts tol = Some pts"
  by (subst simplify.simps) simp

lemma simplify_collapse:
  "\<not> length pts \<le> 2 \<Longrightarrow> farthest pts = (d, k) \<Longrightarrow> \<not> tol < d \<Longrightarrow>
     simplify pts tol = Some [hd pts, last pts]"
  by (subst simplify.simps) simp

lemma simplify_split:
  "\<not> length pts \<le> 2 \<Longrightarrow> farthest pts = (d, k) \<Longrightarrow> tol < d \<Longrightarrow>
     simplify (take (k + 1) pts) tol = Some left \<Longrightarrow>
     simplify (drop k pts) tol = Some right \<Longrightarrow>
     simplify pts tol = Some (butlast left @ right)"
  by (subst simplify.simps) simp

text \<open>
  With a tolerance that is not negative every call returns; the result is no longer than
  the chain, keeps both ends, and has at least two points when the chain has.
\<close>

lemma simplify_returns:
  assumes "0 \<le> tol"
  shows "\<exists>r. simplify pts tol = Some r \<and> length r \<le> length pts
           \<and> (length pts \<le> 2 \<longrightarrow> r = pts)
           \<and> (2 \<le> length pts \<longrightarrow> 2 \<le> length r \<and> hd r = hd pts \<and> last r = last pts)"
proof (induction pts rule: length_induct)
  case (1 pts)
  show ?case
  proof (cases "length pts \<le> 2")
    case True
    then show ?thesis by (simp add: simplify_short)
  next
    case long: False
    obtain d k where f: "farthest pts = (d, k)" by (cases "farthest pts")
    show ?thesis
    proof (cases "tol < d")
      case False
      with long f have "simplify pts tol = Some [hd pts, last pts]"
        by (rule simplify_collapse)
      with long show ?thesis by simp
    next
      case True
      with assms have "0 < d" by simp
      with f have k: "1 \<le> k" "k + 1 < length pts"
        using farthest_index by blast+
      let ?l = "take (k + 1) pts" and ?r = "drop k pts"
      from k have ll: "length ?l = k + 1" and lr: "length ?r = length pts - k"
        by simp_all
      from k ll have "length ?l < length pts" by simp
      with 1 obtain left where left: "simplify ?l tol = Some left"
        "length left \<le> length ?l"
        "2 \<le> length ?l \<longrightarrow> 2 \<le> length left \<and> hd left = hd ?l \<and> last left = last ?l"
        by blast
      from k lr have "length ?r < length pts" by simp
      with 1 obtain right where right: "simplify ?r tol = Some right"
        "length right \<le> length ?r"
        "2 \<le> length ?r \<longrightarrow> 2 \<le> length right \<and> hd right = hd ?r \<and> last right = last ?r"
        by blast
      from k ll left(3) have l2: "2 \<le> length left" "hd left = hd ?l"
        by simp_all
      from k lr right(3) have r2: "2 \<le> length right" "last right = last ?r"
        by simp_all
      from long f True left(1) right(1)
      have res: "simplify pts tol = Some (butlast left @ right)"
        by (rule simplify_split)
      from l2(1) have bl: "butlast left \<noteq> []"
        by (cases left rule: rev_cases) auto
      from l2(1) have "hd (butlast left) = hd left"
        by (cases left) (auto split: if_splits)
      with bl l2(2) k have hd_ok: "hd (butlast left @ right) = hd pts"
        by simp
      from r2 have "right \<noteq> []" by auto
      with r2(2) k have last_ok: "last (butlast left @ right) = last pts"
        by simp
      from left(2) right(2) ll lr k l2(1)
      have len_ok: "length (butlast left @ right) \<le> length pts"
        by simp
      from l2(1) r2(1) have "2 \<le> length (butlast left @ right)"
        by simp
      with res hd_ok last_ok len_ok long show ?thesis by simp
    qed
  qed
qed

text \<open>
  C1. For every point sequence and every tolerance \<open>t \<ge> 0\<close>, \<open>simplifyStroke\<close>
  returns, its result is at most as long as the input, and the first and the last
  element of the result are the first and the last input point (an empty input gives the
  empty result).
\<close>

theorem simplifyStroke_endpoints:
  assumes "0 \<le> t"
  shows "\<exists>r. simplifyStroke pts t = Some r \<and> length r \<le> length pts
           \<and> (r = [] \<longleftrightarrow> pts = [])
           \<and> (pts \<noteq> [] \<longrightarrow> hd r = hd pts \<and> last r = last pts)"
proof (cases "length pts \<le> 2")
  case True
  then show ?thesis by (simp add: simplifyStroke_def)
next
  case False
  with simplify_returns [OF assms, of pts] show ?thesis
    by (auto simp: simplifyStroke_def)
qed

theorem simplifyStroke_endpoints_witness:
  "(0::real) \<le> 1 \<and>
   simplifyStroke [pt 0 0, pt 1 0, pt 2 0] 1 = Some [pt 0 0, pt 2 0] \<and>
   (\<exists>r. simplifyStroke [pt 0 0, pt 1 0, pt 2 0] 1 = Some r \<and> length r \<le> 3
      \<and> hd r = pt 0 0 \<and> last r = pt 2 0)"
proof -
  have h: "(0::real) \<le> 1" by simp
  have e: "simplifyStroke [pt 0 0, pt 1 0, pt 2 0] 1 = Some [pt 0 0, pt 2 0]"
    by (simp add: simplifyStroke_def simplify.simps farthest_def scanStep_def
        perpendicularDistance_def hypot_def pt_def)
  from simplifyStroke_endpoints [OF h, of "[pt 0 0, pt 1 0, pt 2 0]"] h e
  show ?thesis by simp
qed

lemma simplify_monotone:
  assumes "0 \<le> t1" and "t1 \<le> t2"
  shows "\<exists>r1 r2. simplify pts t1 = Some r1 \<and> simplify pts t2 = Some r2
           \<and> length r2 \<le> length r1"
proof (induction pts rule: length_induct)
  case (1 pts)
  from assms have t2: "0 \<le> t2" by simp
  show ?case
  proof (cases "length pts \<le> 2")
    case True
    then show ?thesis by (simp add: simplify_short)
  next
    case long: False
    obtain d k where f: "farthest pts = (d, k)" by (cases "farthest pts")
    from simplify_returns [OF assms(1), of pts] long
    obtain r1 where r1: "simplify pts t1 = Some r1" "2 \<le> length r1"
      by auto
    show ?thesis
    proof (cases "t2 < d")
      case False
      with long f have "simplify pts t2 = Some [hd pts, last pts]"
        by (rule simplify_collapse)
      with r1 show ?thesis by simp
    next
      case True
      with assms have lt1: "t1 < d" by simp
      with assms have "0 < d" by simp
      with f have k: "1 \<le> k" "k + 1 < length pts"
        using farthest_index by blast+
      let ?l = "take (k + 1) pts" and ?r = "drop k pts"
      from k have "length ?l < length pts" by simp
      with 1 obtain a1 a2 where a: "simplify ?l t1 = Some a1" "simplify ?l t2 = Some a2"
        "length a2 \<le> length a1"
        by blast
      from k have "length ?r < length pts" by simp
      with 1 obtain b1 b2 where b: "simplify ?r t1 = Some b1" "simplify ?r t2 = Some b2"
        "length b2 \<le> length b1"
        by blast
      from long f lt1 a(1) b(1) have e1: "simplify pts t1 = Some (butlast a1 @ b1)"
        by (rule simplify_split)
      from long f True a(2) b(2) have e2: "simplify pts t2 = Some (butlast a2 @ b2)"
        by (rule simplify_split)
      from a(3) b(3) have "length (butlast a2 @ b2) \<le> length (butlast a1 @ b1)"
        by simp
      with e1 e2 show ?thesis by simp
    qed
  qed
qed

text \<open>
  C6. For a fixed point sequence and tolerances \<open>0 \<le> t1 \<le> t2\<close>, both calls of
  \<open>simplifyStroke\<close> return and the result for \<open>t2\<close> is at most as long as the result
  for \<open>t1\<close>.
\<close>

theorem simplifyStroke_monotone:
  assumes "0 \<le> t1" and "t1 \<le> t2"
  shows "\<exists>r1 r2. simplifyStroke pts t1 = Some r1 \<and> simplifyStroke pts t2 = Some r2
           \<and> length r2 \<le> length r1"
  using simplify_monotone [OF assms, of pts] by (simp add: simplifyStroke_def)

theorem simplifyStroke_monotone_witness:
  "(0::real) \<le> 1 \<and> (1::real) \<le> 5 \<and>
   simplifyStroke [pt 0 0, pt 1 3, pt 2 0] 1 = Some [pt 0 0, pt 1 3, pt 2 0] \<and>
   simplifyStroke [pt 0 0, pt 1 3, pt 2 0] 5 = Some [pt 0 0, pt 2 0] \<and>
   (\<exists>r1 r2. simplifyStroke [pt 0 0, pt 1 3, pt 2 0] 1 = Some r1
      \<and> simplifyStroke [pt 0 0, pt 1 3, pt 2 0] 5 = Some r2 \<and> length r2 \<le> length r1)"
proof -
  have h1: "(0::real) \<le> 1" and h2: "(1::real) \<le> 5" by simp_all
  have s: "sqrt 9 = 3" using real_sqrt_abs [of 3] by simp
  have e1: "simplifyStroke [pt 0 0, pt 1 3, pt 2 0] 1 = Some [pt 0 0, pt 1 3, pt 2 0]"
    by (simp add: simplifyStroke_def simplify.simps farthest_def scanStep_def
        perpendicularDistance_def hypot_def pt_def s)
  have e2: "simplifyStroke [pt 0 0, pt 1 3, pt 2 0] 5 = Some [pt 0 0, pt 2 0]"
    by (simp add: simplifyStroke_def simplify.simps farthest_def scanStep_def
        perpendicularDistance_def hypot_def pt_def s)
  from simplifyStroke_monotone [OF h1 h2, of "[pt 0 0, pt 1 3, pt 2 0]"] h1 h2 e1 e2
  show ?thesis by simp
qed

text \<open>
  The bound on the tolerance is needed for both results: with the tolerance \<open>-1\<close> and
  three points on one line the recursion calls itself on the same chain, and the call
  does not return.
\<close>

lemma farthest_flat: "farthest [pt 0 0, pt 1 0, pt 2 0] = (0, 0)"
  by (simp add: farthest_def scanStep_def perpendicularDistance_def hypot_def pt_def)

lemma simplify_negative:
  assumes "simplify pts tol = Some r"
  shows "\<not> (pts = [pt 0 0, pt 1 0, pt 2 0] \<and> tol = - 1)"
proof (rule simplify.raw_induct
    [where P = "\<lambda>pts tol r. \<not> (pts = [pt 0 0, pt 1 0, pt 2 0] \<and> tol = - 1)", OF _ assms])
  fix simplify' :: "point list \<Rightarrow> real \<Rightarrow> point list option"
    and chain :: "point list" and t :: real and res :: "point list"
  assume IH: "\<And>p u y. simplify' p u = Some y \<Longrightarrow> \<not> (p = [pt 0 0, pt 1 0, pt 2 0] \<and> u = - 1)"
    and body: "(if length chain \<le> 2 then Some chain
      else case farthest chain of
           (maxDist, maxIndex) \<Rightarrow>
             if t < maxDist
             then Option.bind (simplify' (take (maxIndex + 1) chain) t)
                   (\<lambda>left.
                       Option.bind (simplify' (drop maxIndex chain) t)
                        (\<lambda>right. Some (butlast left @ right)))
             else Some [hd chain, last chain]) = Some res"
  show "\<not> (chain = [pt 0 0, pt 1 0, pt 2 0] \<and> t = - 1)"
  proof
    assume a: "chain = [pt 0 0, pt 1 0, pt 2 0] \<and> t = - 1"
    with body farthest_flat
    obtain right where "simplify' [pt 0 0, pt 1 0, pt 2 0] (- 1) = Some right"
      by (auto split: Option.bind_splits)
    from IH [OF this] show False by simp
  qed
qed

lemma simplifyStroke_negative: "simplifyStroke [pt 0 0, pt 1 0, pt 2 0] (- 1) = None"
proof (cases "simplify [pt 0 0, pt 1 0, pt 2 0] (- 1)")
  case None
  then show ?thesis by (simp add: simplifyStroke_def)
next
  case (Some r)
  from simplify_negative [OF this] show ?thesis by simp
qed

section \<open>Properties of normalize and applyVariation\<close>

lemma normalize_scale:
  "orElse (Some (orElse (Some (orElse (map_option emHeight m) (height b))) 1)) 1
     = spec_scale b m"
  by (cases m) (simp_all add: orElse_def spec_scale_def)

lemma normalize_map:
  "normalize strokes b m =
     map (\<lambda>s. s\<lparr>points :=
            map (normalizePoint (minX b) (spec_originY b m) (spec_scale b m)) (points s)\<rparr>)
       strokes"
proof -
  have o: "(case m of None \<Rightarrow> minY b | Some mm \<Rightarrow> ascender mm) = spec_originY b m"
    by (cases m) (simp_all add: spec_originY_def)
  show ?thesis
    by (simp add: normalize_def Let_def normalize_scale o)
qed

text \<open>
  C3. \<open>normalize\<close> maps the point \<open>j\<close> of the stroke \<open>i\<close> to
  \<open>x' = (x - bounds.minX) / scale\<close>, \<open>y' = (y - originY) / scale\<close>, with the origin
  and the one scale of the specification; and with the bounds
  \<open>{minX:0, minY:0, maxX:40, maxY:60, width:40, height:60}\<close> and metrics whose ascender
  is 0 and whose emHeight is 60, the point \<open>(20, 30)\<close> becomes \<open>(1/3, 1/2)\<close>.
\<close>

theorem normalize_coordinates:
  "(i < length strokes \<and> j < length (points (strokes ! i)) \<longrightarrow>
      px (points (normalize strokes b m ! i) ! j)
        = (px (points (strokes ! i) ! j) - minX b) / spec_scale b m \<and>
      py (points (normalize strokes b m ! i) ! j)
        = (py (points (strokes ! i) ! j) - spec_originY b m) / spec_scale b m) \<and>
   map points
     (normalize [\<lparr>points = [\<lparr>px = 20, py = 30, pressure = pr, timestamp = ts\<rparr>]\<rparr>]
        \<lparr>minX = 0, minY = 0, maxX = 40, maxY = 60, width = 40, height = 60\<rparr>
        (Some \<lparr>ascender = 0, capHeight = ch, xHeight = xh, baseline = bl, descender = ds,
               emHeight = 60, captureWidth = cw\<rparr>))
     = [[\<lparr>px = 1 / 3, py = 1 / 2, pressure = Some (orElse pr (1 / 2)),
          timestamp = Some (orElse ts 0)\<rparr>]]"
  by (simp add: normalize_map normalizePoint_def spec_scale_def spec_originY_def)

theorem normalize_coordinates_witness:
  "(0::nat) < length [\<lparr>points = [pt 3 5, pt 7 9]\<rparr>] \<and>
   (1::nat) < length (points ([\<lparr>points = [pt 3 5, pt 7 9]\<rparr>] ! 0)) \<and>
   px (points (normalize [\<lparr>points = [pt 3 5, pt 7 9]\<rparr>]
         \<lparr>minX = 3, minY = 5, maxX = 7, maxY = 9, width = 4, height = 4\<rparr> None ! 0) ! 1) = 1 \<and>
   py (points (normalize [\<lparr>points = [pt 3 5, pt 7 9]\<rparr>]
         \<lparr>minX = 3, minY = 5, maxX = 7, maxY = 9, width = 4, height = 4\<rparr> None ! 0) ! 1) = 1"
  using normalize_coordinates [of 0 "[\<lparr>points = [pt 3 5, pt 7 9]\<rparr>]" 1
      "\<lparr>minX = 3, minY = 5, maxX = 7, maxY = 9, width = 4, height = 4\<rparr>" None]
  by (simp add: spec_scale_def spec_originY_def pt_def)

text \<open>
  C4, at a point whose pressure is 0: \<open>normalize\<close> gives the point the pressure
  \<open>0.5\<close>, for all bounds and metrics; \<open>point.pressure || 0.5\<close> takes the pressure 0
  for an absent one.
\<close>

theorem normalize_zero_pressure:
  "map (map pressure \<circ> points)
     (normalize [\<lparr>points = [\<lparr>px = x, py = y, pressure = Some 0, timestamp = Some t\<rparr>]\<rparr>] b m)
     = [[Some (1 / 2)]]"
  by (simp add: normalize_map normalizePoint_def orElse_def)

text \<open>
  C5. With the configuration \<open>{positionJitter: 0, rotationRange: 0, scaleRange: 0}\<close>
  the coordinates of the strokes that \<open>applyVariation\<close> returns are those of its
  input, whatever the random source draws.
\<close>

theorem applyVariation_identity:
  "coordinates (fst (applyVariation rnd strokes zeroVariation)) = coordinates strokes"
  by (simp add: applyVariation_def Let_def coordinates_def zeroVariation_def
      variedPoint_def comp_def)

text \<open>
  C10. \<open>normalize\<close> and \<open>applyVariation\<close> keep the shape of their input: as many
  strokes, and in each stroke as many points.
\<close>

theorem normalize_applyVariation_shape:
  "length (normalize strokes b m) = length strokes \<and>
   shape (normalize strokes b m) = shape strokes \<and>
   length (fst (applyVariation rnd strokes config)) = length strokes \<and>
   shape (fst (applyVariation rnd strokes config)) = shape strokes"
  by (simp add: normalize_map applyVariation_def Let_def shape_def comp_def)

section \<open>Properties of importJSON\<close>

lemma object_test: "(truthy v \<and> typeof v = ''object'') = isObject v"
  by (cases v) (simp_all add: isObject_def)

text \<open>
  C7, as the code has it. \<open>importJSON\<close> returns \<open>true\<close> exactly when the input parses
  to an object whose \<open>characters\<close> property is an object, a mapping or an array. For
  every other input (a parse failure, a parsed value without such a property) it returns
  \<open>false\<close> and the state, characters and metadata, is the state before the call. When
  it returns \<open>true\<close> the document is replaced as a whole by the parsed characters and
  the parsed or the default metadata.
\<close>

theorem importJSON_all_or_nothing:
  "fst (importJSON parse created modified this s) = hasCharactersObject (parse s) \<and>
   (\<not> hasCharactersObject (parse s) \<longrightarrow>
      importJSON parse created modified this s = (False, this)) \<and>
   (hasCharactersObject (parse s) \<longrightarrow>
      (\<exists>kvs. parse s = Some (Obj kvs) \<and>
         importJSON parse created modified this s = (True, imported created modified kvs)))"
proof (cases "parse s")
  case None
  then show ?thesis by (simp add: importJSON_def hasCharactersObject_def)
next
  case (Some data)
  show ?thesis
  proof (cases data)
    case (Obj kvs)
    show ?thesis
    proof (cases "map_of (rev kvs) ''characters''")
      case None
      with Some Obj show ?thesis
        by (simp add: importJSON_def hasCharactersObject_def)
    next
      case (Some v)
      with \<open>parse s = Some data\<close> Obj object_test [of v] show ?thesis
        by (auto simp: importJSON_def hasCharactersObject_def Let_def imported_def property_def)
    qed
  qed (use Some in \<open>simp_all add: importJSON_def hasCharactersObject_def\<close>)
qed

theorem importJSON_all_or_nothing_witness:
  "\<not> hasCharactersObject (sampleParse ''{\"metadata\":{}}'') \<and>
   importJSON sampleParse ''t1'' ''t2'' sampleFont ''{\"metadata\":{}}'' = (False, sampleFont) \<and>
   \<not> hasCharactersObject (sampleParse ''null'') \<and>
   importJSON sampleParse ''t1'' ''t2'' sampleFont ''null'' = (False, sampleFont) \<and>
   \<not> hasCharactersObject (sampleParse ''{'') \<and>
   importJSON sampleParse ''t1'' ''t2'' sampleFont ''{'' = (False, sampleFont) \<and>
   hasCharactersObject (sampleParse ''{\"characters\":{}}'') \<and>
   importJSON sampleParse ''t1'' ''t2'' sampleFont ''{\"characters\":{}}''
     = (True, \<lparr>characters = Obj [],
               metadata = Obj [(''created'', Str ''t1''), (''modified'', Str ''t2''),
                               (''version'', Str ''1.0'')]\<rparr>)"
  using
    importJSON_all_or_nothing [of sampleParse "''t1''" "''t2''" sampleFont "''{\"metadata\":{}}''"]
    importJSON_all_or_nothing [of sampleParse "''t1''" "''t2''" sampleFont "''null''"]
    importJSON_all_or_nothing [of sampleParse "''t1''" "''t2''" sampleFont "''{''"]
    importJSON_all_or_nothing [of sampleParse "''t1''" "''t2''" sampleFont "''{\"characters\":{}}''"]
  by (simp add: sampleParse_def hasCharactersObject_def isObject_def imported_def property_def)

text \<open>
  C7 as stated fails: the input \<open>{"characters":[1,2]}\<close> has no \<open>characters\<close> mapping,
  its \<open>characters\<close> property being an array, and \<open>importJSON\<close> returns \<open>true\<close> on it
  and replaces the loaded document.
\<close>

theorem importJSON_array_accepted:
  "sampleParse ''{\"characters\":[1,2]}'' = Some (Obj [(''characters'', Arr [Num 1, Num 2])]) \<and>
   \<not> hasCharactersMapping (sampleParse ''{\"characters\":[1,2]}'') \<and>
   importJSON sampleParse ''t1'' ''t2'' sampleFont ''{\"characters\":[1,2]}''
     = (True, \<lparr>characters = Arr [Num 1, Num 2],
               metadata = Obj [(''created'', Str ''t1''), (''modified'', Str ''t2''),
                               (''version'', Str ''1.0'')]\<rparr>) \<and>
   characters sampleFont = Obj [(''a'', Obj [])]"
  by (simp add: sampleParse_def hasCharactersMapping_def importJSON_def Let_def sampleFont_def)

section \<open>Properties of the line layout\<close>

lemma renderStep_pos:
  assumes "renderStep fontData cfg line y st = Some st'"
  shows "pos st' = pos st + step fontData line (pos st)"
  using assms
  by (auto simp: renderStep_def Let_def split: if_splits option.splits)

lemma renderLoop_done:
  "\<not> pos st < length line \<Longrightarrow> renderLoop fontData cfg line y st = Some st"
  by (subst renderLoop.simps) simp

lemma renderLoop_pass:
  "pos st < length line \<Longrightarrow>
     renderLoop fontData cfg line y st =
       Option.bind (renderStep fontData cfg line y st) (renderLoop fontData cfg line y)"
  by (subst renderLoop.simps) (simp split: option.splits)

lemma glyphKeys_end: "\<not> i < length line \<Longrightarrow> glyphKeys fontData line i = []"
  by (subst glyphKeys.simps) simp

lemma glyphKeys_next:
  "i < length line \<Longrightarrow>
     glyphKeys fontData line i
       = glyphKey fontData line i # glyphKeys fontData line (i + step fontData line i)"
  by (subst glyphKeys.simps) simp

subsection \<open>The missing keys\<close>

lemma placeGlyph_keeps:
  "placeGlyph cfg y c st = Some st' \<Longrightarrow>
     missingChars st' = missingChars st \<and> pos st' = pos st"
  by (auto simp: placeGlyph_def Let_def split: option.splits)

lemma renderStep_missing:
  assumes "renderStep fontData cfg line y st = Some st'"
  shows "missingChars st' =
     missingChars st @ filter (isMissing fontData) [glyphKey fontData line (pos st)]"
  using assms
  by (auto simp: renderStep_def Let_def isMissing_def getCharacter_def
      dest: placeGlyph_keeps split: if_splits option.splits)

lemma renderLoop_missing:
  "renderLoop fontData cfg line y st = Some st' \<Longrightarrow>
     missingChars st' =
       missingChars st @ filter (isMissing fontData) (glyphKeys fontData line (pos st))"
proof (induction fontData cfg line y st rule: renderLoop.induct)
  case (1 fontData cfg line y st)
  show ?case
  proof (cases "pos st < length line")
    case False
    with "1.prems" show ?thesis
      by (subst glyphKeys.simps) (simp add: renderLoop_done)
  next
    case True
    with "1.prems" obtain st1 where s: "renderStep fontData cfg line y st = Some st1"
      and l: "renderLoop fontData cfg line y st1 = Some st'"
      by (auto simp: renderLoop_pass split: Option.bind_splits)
    from "1.IH" [OF True s l]
    have "missingChars st' =
        missingChars st1 @ filter (isMissing fontData) (glyphKeys fontData line (pos st1))" .
    with renderStep_missing [OF s] renderStep_pos [OF s] True show ?thesis
      by (subst glyphKeys.simps) (simp add: isMissing_def)
  qed
qed

lemma renderStep_absent:
  assumes "isMissing fontData (glyphKey fontData line (pos st))"
  shows "renderStep fontData cfg line y st =
     Some (st\<lparr>missingChars := missingChars st @ [glyphKey fontData line (pos st)],
             xPosition := xPosition st + fontSize cfg * 0.5,
             pos := pos st + step fontData line (pos st)\<rparr>)"
  using assms by (simp add: renderStep_def Let_def isMissing_def getCharacter_def)

subsection \<open>The layout of a drawable line returns\<close>

lemma growBox_fold: "(foldl growBox acc ps = None) = (acc = None \<and> ps = [])"
proof (induction ps arbitrary: acc)
  case Nil
  then show ?case by simp
next
  case (Cons p ps)
  have "growBox acc p \<noteq> None"
    by (simp add: growBox_def split: option.splits prod.splits)
  with Cons show ?case by simp
qed

lemma strokes_fold:
  "foldl (\<lambda>acc s. foldl growBox acc (points s)) acc strokes
     = foldl growBox acc (allPoints strokes)"
  by (induction strokes arbitrary: acc) (simp_all add: allPoints_def)

lemma calculateBounds_None:
  "(calculateBounds strokes = None) = (strokes \<noteq> [] \<and> allPoints strokes = [])"
proof (cases "strokes = []")
  case True
  then show ?thesis by (simp add: calculateBounds_def)
next
  case False
  have "(foldl growBox None (allPoints strokes) = None) = (allPoints strokes = [])"
    using growBox_fold [of None "allPoints strokes"] by simp
  with False show ?thesis
    by (auto simp: calculateBounds_def strokes_fold split: option.splits prod.splits)
qed

lemma no_points_shape: "(allPoints strokes = []) = (\<forall>n \<in> set (shape strokes). n = 0)"
  by (auto simp: shape_def allPoints_def)

lemma normalize_keeps_shape: "shape (normalize strokes b m) = shape strokes"
  by (simp add: normalize_map shape_def comp_def)

lemma applyVariation_keeps_shape:
  "shape (fst (applyVariation rnd strokes config)) = shape strokes"
  by (simp add: applyVariation_def Let_def shape_def comp_def)

lemma shape_Nil: "(shape strokes = []) = (strokes = [])"
  by (simp add: shape_def)

lemma placeGlyph_returns:
  assumes "drawable c"
  shows "\<exists>st'. placeGlyph cfg y c st = Some st'"
proof -
  let ?v = "fst (applyVariation (random st)
      (normalize (charStrokes c) (charBounds c) (charMetrics c))
      \<lparr>positionJitter = Some (variation cfg * 0.01),
       rotationRange = Some (variation cfg * 1.5),
       scaleRange = Some (variation cfg * 0.02)\<rparr>)"
  have sh: "shape ?v = shape (charStrokes c)"
    by (simp add: applyVariation_keeps_shape normalize_keeps_shape)
  then have "(?v = []) = (charStrokes c = [])"
    using shape_Nil by metis
  moreover from sh have "(allPoints ?v = []) = (allPoints (charStrokes c) = [])"
    by (simp only: no_points_shape)
  ultimately have "calculateBounds ?v \<noteq> None"
    using assms by (auto simp: calculateBounds_None drawable_def)
  then obtain nb where "calculateBounds ?v = Some nb" by auto
  then show ?thesis
    by (simp add: placeGlyph_def Let_def)
qed

lemma renderStep_returns:
  assumes "case fontData (glyphKey fontData line (pos st)) of
             None \<Rightarrow> True | Some c \<Rightarrow> drawable c"
  shows "\<exists>st'. renderStep fontData cfg line y st = Some st'"
proof (cases "fontData (glyphKey fontData line (pos st))")
  case None
  then show ?thesis by (simp add: renderStep_def Let_def getCharacter_def)
next
  case (Some c)
  with assms have "drawable c" by simp
  from placeGlyph_returns [OF this, of cfg y st] Some show ?thesis
    by (auto simp: renderStep_def Let_def getCharacter_def)
qed

lemma renderLoop_returns:
  "list_all (\<lambda>key. case fontData key of None \<Rightarrow> True | Some c \<Rightarrow> drawable c)
       (glyphKeys fontData line (pos st)) \<Longrightarrow>
   \<exists>st'. renderLoop fontData cfg line y st = Some st'"
proof (induction fontData cfg line y st rule: renderLoop.induct)
  case (1 fontData cfg line y st)
  show ?case
  proof (cases "pos st < length line")
    case False
    then show ?thesis by (simp add: renderLoop_done)
  next
    case True
    with "1.prems"
    have k: "case fontData (glyphKey fontData line (pos st)) of
               None \<Rightarrow> True | Some c \<Rightarrow> drawable c"
      and r: "list_all (\<lambda>key. case fontData key of None \<Rightarrow> True | Some c \<Rightarrow> drawable c)
         (glyphKeys fontData line (pos st + step fontData line (pos st)))"
      by (simp_all add: glyphKeys_next)
    from k renderStep_returns [of fontData line st cfg y]
    obtain st1 where s: "renderStep fontData cfg line y st = Some st1" by blast
    from r renderStep_pos [OF s]
    have "list_all (\<lambda>key. case fontData key of None \<Rightarrow> True | Some c \<Rightarrow> drawable c)
         (glyphKeys fontData line (pos st1))"
      by simp
    from "1.IH" [OF True s this] s True show ?thesis
      by (simp add: renderLoop_pass)
  qed
qed

subsection \<open>One pass of the loop\<close>





subsection \<open>The line th\<close>


subsection \<open>The sample glyphs, placed\<close>






lemma glyphKeys_ab: "glyphKeys noGlyphs ''ab'' 0 = [''a'', ''b'']"
  by (simp add: glyphKeys_next glyphKeys_end
      glyphKey_def step_def usePair_def hasCharacter_def noGlyphs_def)

subsection \<open>Longest match\<close>



subsection \<open>What renderLine returns\<close>

lemma distinctKeys_fold:
  "distinct seen \<Longrightarrow>
     set (foldl (\<lambda>seen k. if k \<in> set seen then seen else seen @ [k]) seen ks)
       = set seen \<union> set ks \<and>
     distinct (foldl (\<lambda>seen k. if k \<in> set seen then seen else seen @ [k]) seen ks)"
  by (induction ks arbitrary: seen) auto

lemma distinctKeys_set: "set (distinctKeys ks) = set ks \<and> distinct (distinctKeys ks)"
  using distinctKeys_fold [of "[]" ks] by (simp add: distinctKeys_def)

text \<open>
  C2, as the code has it. A pass at a missing key returns: it appends the key to
  \<open>missingChars\<close>, moves the cursor by \<open>fontSize * 0.5\<close> and goes on. On a drawable
  line \<open>renderLine\<close> returns; \<open>missingChars\<close> then holds the missing keys of the line,
  one entry for each time one is met, and the returned object has the two properties
  \<open>svg\<close> and \<open>width\<close>: the missing keys go to the one console warning, each of
  them once, and are not returned.
\<close>

theorem renderLine_missing:
  "(isMissing fontData (glyphKey fontData line (pos st)) \<longrightarrow>
      renderStep fontData cfg line y st =
        Some (st\<lparr>missingChars := missingChars st @ [glyphKey fontData line (pos st)],
                xPosition := xPosition st + fontSize cfg * 0.5,
                pos := pos st + step fontData line (pos st)\<rparr>)) \<and>
   (drawableLine fontData line \<longrightarrow>
      (\<exists>st'. renderLoop fontData cfg line y (initialState x rnd) = Some st' \<and>
         missingChars st' = filter (isMissing fontData) (glyphKeys fontData line 0) \<and>
         renderLine fontData cfg rnd line x y =
           Some (\<lparr>svg = svgContent st', lineWidth = xPosition st' - x\<rparr>,
                 (if missingChars st' \<noteq> []
                  then [[''Missing characters:'',
                         joinWith '', '' (distinctKeys (missingChars st'))]]
                  else []),
                 random st'))) \<and>
   set (distinctKeys ks) = set ks \<and> distinct (distinctKeys ks)"
proof (intro conjI impI)
  show "set (distinctKeys ks) = set ks" and "distinct (distinctKeys ks)"
    by (simp_all add: distinctKeys_set)
next
  assume "isMissing fontData (glyphKey fontData line (pos st))"
  then show "renderStep fontData cfg line y st =
        Some (st\<lparr>missingChars := missingChars st @ [glyphKey fontData line (pos st)],
                xPosition := xPosition st + fontSize cfg * 0.5,
                pos := pos st + step fontData line (pos st)\<rparr>)"
    by (rule renderStep_absent)
next
  assume "drawableLine fontData line"
  then have "list_all (\<lambda>key. case fontData key of None \<Rightarrow> True | Some c \<Rightarrow> drawable c)
       (glyphKeys fontData line (pos (initialState x rnd)))"
    by (simp add: drawableLine_def initialState_def)
  from renderLoop_returns [OF this, of cfg y]
  obtain st' where l: "renderLoop fontData cfg line y (initialState x rnd) = Some st'"
    by blast
  from renderLoop_missing [OF l]
  have "missingChars st' = filter (isMissing fontData) (glyphKeys fontData line 0)"
    by (simp add: initialState_def)
  with l show "\<exists>st'. renderLoop fontData cfg line y (initialState x rnd) = Some st' \<and>
         missingChars st' = filter (isMissing fontData) (glyphKeys fontData line 0) \<and>
         renderLine fontData cfg rnd line x y =
           Some (\<lparr>svg = svgContent st', lineWidth = xPosition st' - x\<rparr>,
                 (if missingChars st' \<noteq> []
                  then [[''Missing characters:'',
                         joinWith '', '' (distinctKeys (missingChars st'))]]
                  else []),
                 random st')"
    by (simp add: renderLine_def)
qed

theorem renderLine_missing_witness:
  "isMissing noGlyphs (glyphKey noGlyphs ''ab'' (pos (initialState 50 steady))) \<and>
   drawableLine noGlyphs ''ab'' \<and>
   renderLine noGlyphs sampleConfig steady ''ab'' 50 100 =
     Some (\<lparr>svg = [], lineWidth = 60\<rparr>, [[''Missing characters:'', ''a, b'']], steady)"
proof -
  have m: "isMissing noGlyphs (glyphKey noGlyphs ''ab'' (pos (initialState 50 steady)))"
    by (simp add: isMissing_def noGlyphs_def glyphKey_def usePair_def hasCharacter_def
        initialState_def)
  have d: "drawableLine noGlyphs ''ab''"
    by (simp add: drawableLine_def glyphKeys_ab) (simp add: noGlyphs_def)
  have e: "renderLine noGlyphs sampleConfig steady ''ab'' 50 100 =
     Some (\<lparr>svg = [], lineWidth = 60\<rparr>, [[''Missing characters:'', ''a, b'']], steady)"
    by (simp add: renderLine_def initialState_def renderStep_def Let_def glyphKey_def
        step_def usePair_def hasCharacter_def getCharacter_def noGlyphs_def sampleConfig_def
        distinctKeys_def renderLoop_pass renderLoop_done)
  from renderLine_missing
      [of noGlyphs "''ab''" "initialState 50 steady" sampleConfig 100 50 steady "[]"]
    m d e
  show ?thesis by simp
qed

text \<open>
  C2 as stated fails: on the lines \<open>a\<close> and \<open>b\<close>, with a document that has neither
  glyph, \<open>renderLine\<close> returns the same object, while the missing keys of the two lines
  differ. The returned object does not hold them.
\<close>

theorem renderLine_missing_not_returned:
  "map_option fst (renderLine noGlyphs sampleConfig steady ''a'' 50 100)
     = Some \<lparr>svg = [], lineWidth = 30\<rparr> \<and>
   map_option fst (renderLine noGlyphs sampleConfig steady ''b'' 50 100)
     = Some \<lparr>svg = [], lineWidth = 30\<rparr> \<and>
   map_option missingChars (renderLoop noGlyphs sampleConfig ''a'' 100 (initialState 50 steady))
     = Some [''a''] \<and>
   map_option missingChars (renderLoop noGlyphs sampleConfig ''b'' 100 (initialState 50 steady))
     = Some [''b'']"
  by (simp add: renderLine_def initialState_def renderStep_def Let_def glyphKey_def step_def
      usePair_def hasCharacter_def getCharacter_def noGlyphs_def sampleConfig_def
      renderLoop_pass renderLoop_done)

subsection \<open>Strokes of one point\<close>







end
